theory Spec2Isabelle
  imports Main "HOL-Library.Sublist"
begin

section \<open>The select panel of the multi-select dropdown\<close>

text \<open>
  A shallow embedding of the \<^verbatim>\<open>SelectPanel\<close> component (the panel that drops down
  below the heading): the bulk select-all reconciliation, the "all selected" memo, the
  filter effect with its promise, the create-option flow and the focus index.

  Two source names are keywords of the theory language and are therefore suffixed:
  the field \<^verbatim>\<open>value\<close> of an option is \<open>opt_value\<close>, and the selection
  \<^verbatim>\<open>value\<close> that the panel reads from \<^verbatim>\<open>useMultiSelect()\<close> is \<open>value_sel\<close>.
\<close>

subsection \<open>Data model\<close>

text \<open>
  An option \<^verbatim>\<open>{ label, value, disabled?, __isNew__? }\<close>. The two optional flags are
  only ever tested for truthiness, so an absent flag is \<open>False\<close>.
\<close>

record SelectOption =
  label :: string
  opt_value :: string
  disabled :: bool
  isNew :: bool

text \<open>A thrown exception or the reason of a rejected promise.\<close>

datatype js_error = Thrown string

text \<open>
  A settled promise: \<open>Inr\<close> of the value it fulfils with, \<open>Inl\<close> of the reason it
  rejects with.
\<close>

type_synonym 'a promise = "js_error + 'a"

text \<open>
  What the panel reads from \<^verbatim>\<open>useMultiSelect()\<close> (the first seven fields; an absent
  callback is \<open>None\<close>), its four \<^verbatim>\<open>useState\<close> cells, and two fields of the
  JavaScript run time that the filter effect needs: the promises of custom filter calls
  that have not settled yet, in the order they were created, and the reasons of the
  rejections that no handler took.
\<close>

record panel =
  options :: "SelectOption list"
  value_sel :: "SelectOption list"
  customFilterOptions :: "(SelectOption list \<Rightarrow> string \<Rightarrow> SelectOption list promise) option"
  onCreateOption :: "(string \<Rightarrow> SelectOption promise) option"
  disableSearch :: bool
  hasSelectAll :: bool
  isCreatable :: bool
  searchText :: string
  filteredOptions :: "SelectOption list"
  searchTextForFilter :: string
  focusIndex :: int
  pending :: "SelectOption list promise list"
  unhandled :: "js_error list"

subsection \<open>Array helpers\<close>

text \<open>\<^verbatim>\<open>Array.prototype.includes\<close> on an array of strings.\<close>

primrec array_includes :: "'a list \<Rightarrow> 'a \<Rightarrow> bool" where
  "array_includes [] v = False"
| "array_includes (x # xs) v = (x = v \<or> array_includes xs v)"

text \<open>\<^verbatim>\<open>Array.prototype.findIndex\<close>: the first index that satisfies, or -1.\<close>

primrec findIndex :: "('a \<Rightarrow> bool) \<Rightarrow> 'a list \<Rightarrow> int" where
  "findIndex P [] = - 1"
| "findIndex P (x # xs) =
     (if P x then 0
      else (let i = findIndex P xs in if i = - 1 then - 1 else i + 1))"

text \<open>\<^verbatim>\<open>Array.prototype.every\<close> and \<^verbatim>\<open>Array.prototype.some\<close>.\<close>

primrec every :: "('a \<Rightarrow> bool) \<Rightarrow> 'a list \<Rightarrow> bool" where
  "every P [] = True"
| "every P (x # xs) = (P x \<and> every P xs)"

primrec some :: "('a \<Rightarrow> bool) \<Rightarrow> 'a list \<Rightarrow> bool" where
  "some P [] = False"
| "some P (x # xs) = (P x \<or> some P xs)"

subsection \<open>Bulk select-all\<close>

text \<open>\<^verbatim>\<open>selectAllValues\<close>, lines 74 to 89.\<close>

definition filteredValues :: "panel \<Rightarrow> string list" where
  "filteredValues s = map opt_value (filter (\<lambda>x. \<not> disabled x) (filteredOptions s))"

definition selectAllValues :: "bool \<Rightarrow> panel \<Rightarrow> SelectOption list" where
  "selectAllValues checked s =
     (if checked then
        (let selectedValues = map opt_value (value_sel s);
             finalSelectedValues = selectedValues @ filteredValues s
         in filter (\<lambda>x. array_includes finalSelectedValues (opt_value x))
              (if customFilterOptions s \<noteq> None then filteredOptions s else options s))
      else filter (\<lambda>x. \<not> array_includes (filteredValues s) (opt_value x)) (value_sel s))"

subsection \<open>The "all selected" memo\<close>

text \<open>
  Lines 165 to 174: the memo returns the pair
  \<^verbatim>\<open>[isAllOptionSelected, hasSelectableOptions]\<close>.
\<close>

definition allSelectedMemo :: "panel \<Rightarrow> bool \<times> bool" where
  "allSelectedMemo s =
     (let filteredOptionsList = filter (\<lambda>x. \<not> disabled x) (filteredOptions s)
      in (every (\<lambda>x. findIndex (\<lambda>v. opt_value v = opt_value x) (value_sel s) \<noteq> - 1)
            filteredOptionsList,
          length filteredOptionsList \<noteq> 0))"

definition isAllOptionSelected :: "panel \<Rightarrow> bool" where
  "isAllOptionSelected s = fst (allSelectedMemo s)"

definition hasSelectableOptions :: "panel \<Rightarrow> bool" where
  "hasSelectableOptions s = snd (allSelectedMemo s)"

subsection \<open>The option filter\<close>

text \<open>
  Modelled from the spec: the built-in filter \<^verbatim>\<open>filterOptions\<close> of
  \<^verbatim>\<open>lib/simple-match-utils\<close>, which the panel imports and whose source is missing.
  The spec (section 4.1): if the query is empty the result is the candidate list
  unchanged; otherwise an option is included iff its label, normalised to a common case,
  contains the query, normalised to the same case, as a substring.

  The common case is lower case here. A character of a model string is one code unit of
  the JavaScript string, and the type \<open>char\<close> holds the code units 0 to 255, that is
  Basic Latin and the Latin-1 Supplement. The letters with a lower-case partner among
  them are A to Z (65 to 90) and the accented capitals 192 to 222 without the
  multiplication sign 215.
\<close>

definition isUpperCase_char :: "char \<Rightarrow> bool" where
  "isUpperCase_char c =
     (let n = (of_char c :: nat)
      in (65 \<le> n \<and> n \<le> 90) \<or> (192 \<le> n \<and> n \<le> 222 \<and> n \<noteq> 215))"

text \<open>
  Modelled from the spec: the normalisation of one character. The lower-case partner of
  an upper-case letter is 32 code units above it; bit 5 (of weight 32) is clear in every
  upper-case letter, so adding 32 is setting that bit (lemma \<open>toLowerCase_char_plus_32\<close>).
  Every other character is left as it is.
\<close>

definition toLowerCase_char :: "char \<Rightarrow> char" where
  "toLowerCase_char c =
     (if isUpperCase_char c
      then (case c of Char b0 b1 b2 b3 b4 b5 b6 b7 \<Rightarrow> Char b0 b1 b2 b3 b4 True b6 b7)
      else c)"

text \<open>
  Modelled from the spec: the normalisation "to a common case" of a whole string, used by
  \<^verbatim>\<open>filterOptions\<close> for the label and for the query.
\<close>

definition toLowerCase :: "string \<Rightarrow> string" where
  "toLowerCase str = map toLowerCase_char str"

text \<open>
  Modelled from the spec: \<^verbatim>\<open>filterOptions(options, query)\<close> itself, the identity for
  the empty query and otherwise the candidates whose normalised label contains the
  normalised query as a contiguous substring (\<open>sublist\<close>).
\<close>

definition filterOptions :: "SelectOption list \<Rightarrow> string \<Rightarrow> SelectOption list" where
  "filterOptions candidates query =
     (if query = [] then candidates
      else filter (\<lambda>x. sublist (toLowerCase query) (toLowerCase (label x))) candidates)"

text \<open>
  \<^verbatim>\<open>getFilteredOptions\<close>, lines 149 to 152: an async function, so its result is a
  promise. A custom filter that throws makes the promise reject, as one that returns a
  rejected promise does.
\<close>

definition getFilteredOptions :: "panel \<Rightarrow> SelectOption list promise" where
  "getFilteredOptions s =
     (case customFilterOptions s of
        Some f \<Rightarrow> f (options s) (searchTextForFilter s)
      | None \<Rightarrow> Inr (filterOptions (options s) (searchTextForFilter s)))"

subsection \<open>The filter effect\<close>

text \<open>
  Lines 176 to 178: \<^verbatim>\<open>getFilteredOptions().then(setFilteredOptions)\<close>. The only
  reaction attached to the promise is the fulfilment handler: a fulfilled promise stores
  its value in \<^verbatim>\<open>filteredOptions\<close>; a rejected one calls nothing, and since the
  promise that \<^verbatim>\<open>then\<close> returns has no handler either, the run time reports the
  reason as an unhandled rejection.
\<close>

definition then_setFilteredOptions :: "SelectOption list promise \<Rightarrow> panel \<Rightarrow> panel" where
  "then_setFilteredOptions p s =
     (case p of
        Inr r \<Rightarrow> s\<lparr>filteredOptions := r\<rparr>
      | Inl e \<Rightarrow> s\<lparr>unhandled := unhandled s @ [e]\<rparr>)"

text \<open>
  One run of the effect. The promise of the built-in filter is already fulfilled when
  \<^verbatim>\<open>then\<close> is called, so its handler runs before any other event; the promise of
  a custom filter settles when the host's function decides, so it is queued.
\<close>

definition filterEffect :: "panel \<Rightarrow> panel" where
  "filterEffect s =
     (if customFilterOptions s \<noteq> None then s\<lparr>pending := pending s @ [getFilteredOptions s]\<rparr>
      else then_setFilteredOptions (getFilteredOptions s) s)"

text \<open>
  The \<open>i\<close>-th queued promise settles: its handler runs and the promise leaves the
  queue. Promises may settle in any order.
\<close>

definition settle :: "nat \<Rightarrow> panel \<Rightarrow> panel" where
  "settle i s =
     (if i < length (pending s)
      then then_setFilteredOptions (pending s ! i)
             (s\<lparr>pending := take i (pending s) @ drop (Suc i) (pending s)\<rparr>)
      else s)"

text \<open>
  The callback that \<^verbatim>\<open>debounce\<close> fires (line 54, \<^verbatim>\<open>setSearchTextForFilter(query)\<close>)
  and the effect of the render that follows: the effect depends on
  \<^verbatim>\<open>searchTextForFilter\<close>, so it runs when the query changed. Each such run is one
  filter request.
\<close>

definition debouncedSearch :: "string \<Rightarrow> panel \<Rightarrow> panel" where
  "debouncedSearch query s =
     (if query = searchTextForFilter s then s
      else filterEffect (s\<lparr>searchTextForFilter := query\<rparr>))"

text \<open>The first \<open>n\<close> queued promises settle, in the order they were created.\<close>

primrec settleAll :: "nat \<Rightarrow> panel \<Rightarrow> panel" where
  "settleAll 0 s = s"
| "settleAll (Suc n) s = settleAll n (settle 0 s)"

subsection \<open>The create-option flow\<close>

text \<open>\<^verbatim>\<open>handleClear\<close>, lines 102 to 106.\<close>

definition handleClear :: "panel \<Rightarrow> panel" where
  "handleClear s = s\<lparr>searchTextForFilter := [], searchText := []\<rparr>"

text \<open>
  \<^verbatim>\<open>handleOnCreateOption\<close>, lines 134 to 147. The result is the panel after the
  state setters, paired with the argument of \<^verbatim>\<open>onChange\<close>; a custom creator that
  rejects makes the function reject before it sets anything. The filter effect of the
  render that follows is \<open>filterEffect\<close>, and is not part of this function.
\<close>

definition handleOnCreateOption :: "panel \<Rightarrow> (panel \<times> SelectOption list) promise" where
  "handleOnCreateOption s =
     (let newOption = \<lparr>label = searchText s, opt_value = searchText s, disabled = False,
                        isNew = True\<rparr>
      in case (case onCreateOption s of
                 Some f \<Rightarrow> f (searchText s)
               | None \<Rightarrow> Inr newOption) of
           Inl e \<Rightarrow> Inl e
         | Inr newOption \<Rightarrow>
             Inr (handleClear (s\<lparr>options := newOption # options s\<rparr>),
                  value_sel s @ [newOption]))"

text \<open>\<^verbatim>\<open>showCreatable\<close>, lines 183 to 186, and the branch of lines 227 to 244.\<close>

definition showCreatable :: "panel \<Rightarrow> bool" where
  "showCreatable s \<longleftrightarrow>
     isCreatable s \<and> searchText s \<noteq> [] \<and>
     \<not> some (\<lambda>e. opt_value e = searchText s) (filteredOptions s)"

datatype options_row = SelectList | CreatableItem | NoOptionsItem

definition renderOptions :: "panel \<Rightarrow> options_row" where
  "renderOptions s =
     (if length (filteredOptions s) \<noteq> 0 then SelectList
      else if showCreatable s then CreatableItem
      else NoOptionsItem)"

subsection \<open>Focus index\<close>

text \<open>\<^verbatim>\<open>skipIndex\<close>, lines 60 to 67, and \<^verbatim>\<open>updateFocus\<close>, lines 154 to 159.\<close>

definition skipIndex :: "panel \<Rightarrow> int" where
  "skipIndex s =
     (let start = 0;
          start = (if \<not> disableSearch s then start + 1 else start);
          start = (if hasSelectAll s then start + 1 else start)
      in start)"

definition updateFocus :: "int \<Rightarrow> panel \<Rightarrow> panel" where
  "updateFocus offset s =
     (let newFocus = focusIndex s + offset;
          newFocus = max 0 newFocus;
          newFocus = min newFocus (int (length (options s)) + max (skipIndex s - 1) 0)
      in s\<lparr>focusIndex := newFocus\<rparr>)"

text \<open>
  The rows that the panel renders (lines 190, 215 and 227 to 232): the search box unless
  search is disabled, the select-all item when it is enabled and there is a selectable
  option, and one item for each filtered option.
\<close>

definition visibleRowCount :: "panel \<Rightarrow> int" where
  "visibleRowCount s =
     (if \<not> disableSearch s then 1 else 0) +
     (if hasSelectAll s \<and> hasSelectableOptions s then 1 else 0) +
     int (length (filteredOptions s))"

subsection \<open>Example options and panels\<close>

definition mkOption :: "string \<Rightarrow> string \<Rightarrow> bool \<Rightarrow> SelectOption" where
  "mkOption l v d = \<lparr>label = l, opt_value = v, disabled = d, isNew = False\<rparr>"

text \<open>
  The state of a freshly mounted panel, before its first effect: the \<^verbatim>\<open>useState\<close>
  initial values of lines 48 to 51.
\<close>

definition initialPanel ::
  "SelectOption list \<Rightarrow> SelectOption list \<Rightarrow>
   (SelectOption list \<Rightarrow> string \<Rightarrow> SelectOption list promise) option \<Rightarrow> panel" where
  "initialPanel opts sel cf =
     \<lparr>options = opts, value_sel = sel, customFilterOptions = cf, onCreateOption = None,
      disableSearch = False, hasSelectAll = True, isCreatable = False,
      searchText = [], filteredOptions = opts, searchTextForFilter = [],
      focusIndex = 0, pending = [], unhandled = []\<rparr>"

definition optA :: SelectOption where
  "optA = mkOption ''A'' ''a'' False"

definition optB :: SelectOption where
  "optB = mkOption ''B'' ''b'' True"

definition optC :: SelectOption where
  "optC = mkOption ''C'' ''c'' False"

definition optZ :: SelectOption where
  "optZ = mkOption ''Z'' ''z'' False"

text \<open>A custom filter that keeps the options whose label is the query.\<close>

definition exactLabelFilter :: "SelectOption list \<Rightarrow> string \<Rightarrow> SelectOption list promise" where
  "exactLabelFilter opts q = Inr (filter (\<lambda>x. label x = q) opts)"

text \<open>A custom filter that always fails.\<close>

definition failingFilter :: "SelectOption list \<Rightarrow> string \<Rightarrow> SelectOption list promise" where
  "failingFilter opts q = Inl (Thrown ''lookup failed'')"

text \<open>
  A panel with a custom filter that shows only C, while A is selected; and a panel that
  shows all three options, of which the disabled B is selected.
\<close>

definition hiddenSelectedPanel :: panel where
  "hiddenSelectedPanel =
     (initialPanel [optA, optC] [optA] (Some exactLabelFilter))\<lparr>filteredOptions := [optC]\<rparr>"

definition disabledSelectedPanel :: panel where
  "disabledSelectedPanel = initialPanel [optA, optB, optC] [optB] None"

text \<open>
  A panel whose selection is Z (which is not a candidate), B and A, in that order, with
  the built-in filter showing only C.
\<close>

definition reorderedPanel :: panel where
  "reorderedPanel =
     (initialPanel [optA, optB, optC] [optZ, optB, optA] None)\<lparr>filteredOptions := [optC]\<rparr>"

text \<open>
  A panel that shows only C, with the disabled B and C selected; and a panel whose only
  option is the disabled B.
\<close>

definition deselectPanel :: panel where
  "deselectPanel =
     (initialPanel [optA, optB, optC] [optB, optC] None)\<lparr>filteredOptions := [optC]\<rparr>"

definition allDisabledPanel :: panel where
  "allDisabledPanel = initialPanel [optB] [] None"

text \<open>
  Three options with longer labels, a fourth whose label starts with a capital E with
  acute accent (code unit 201), and a panel that is filtering the first three for "APP".
\<close>

definition optApple :: SelectOption where
  "optApple = mkOption ''Apple'' ''1'' False"

definition optBanana :: SelectOption where
  "optBanana = mkOption ''Banana'' ''2'' False"

definition optPineapple :: SelectOption where
  "optPineapple = mkOption ''Pineapple'' ''3'' False"

definition optEclair :: SelectOption where
  "optEclair = mkOption (CHR 0xC9 # ''clair'') ''4'' False"

definition fruitPanel :: panel where
  "fruitPanel =
     (initialPanel [optApple, optBanana, optPineapple] [] None)\<lparr>searchText := ''APP'',
        searchTextForFilter := ''APP''\<rparr>"

text \<open>
  A creatable panel whose only option has the label Xyz and the value a, after the user
  typed "a" and the filter request for it settled: the filter matches on labels, so
  nothing is visible.
\<close>

definition optXyz :: SelectOption where
  "optXyz = mkOption ''Xyz'' ''a'' False"

definition valueMatchPanel :: panel where
  "valueMatchPanel =
     (initialPanel [optXyz] [] (Some exactLabelFilter))\<lparr>isCreatable := True,
        searchText := ''a'',
        searchTextForFilter := ''a'', filteredOptions := []\<rparr>"

text \<open>
  The creatable scenario of the spec: the only option is A, the user typed "zzz", nothing
  is visible.
\<close>

definition createPanel :: panel where
  "createPanel =
     (initialPanel [optA] [] None)\<lparr>isCreatable := True, searchText := ''zzz'',
        searchTextForFilter := ''zzz'', filteredOptions := []\<rparr>"

definition optZzz :: SelectOption where
  "optZzz = \<lparr>label = ''zzz'', opt_value = ''zzz'', disabled = False, isNew = True\<rparr>"

text \<open>
  A panel without search box and without select-all item, with one option; and a panel
  with both, whose filter shows one of three options, focused on that option's row.
\<close>

definition bareOneOptionPanel :: panel where
  "bareOneOptionPanel =
     (initialPanel [optA] [] None)\<lparr>disableSearch := True, hasSelectAll := False\<rparr>"

definition filteredFocusPanel :: panel where
  "filteredFocusPanel =
     (initialPanel [optA, optB, optC] [] None)\<lparr>filteredOptions := [optC], focusIndex := 2\<rparr>"

text \<open>
  A panel with the custom filter on labels, after the requests for "A" and then for "B"
  were issued and before either settled; and a panel whose custom filter fails.
\<close>

definition racePanel :: panel where
  "racePanel =
     debouncedSearch ''B''
       (debouncedSearch ''A'' (initialPanel [optA, optB] [] (Some exactLabelFilter)))"

definition failPanel :: panel where
  "failPanel = initialPanel [optA] [] (Some failingFilter)"

lemmas example_defs =
  mkOption_def initialPanel_def optA_def optB_def optC_def optZ_def

section \<open>Properties\<close>

subsection \<open>Helper lemmas\<close>

lemma array_includes_set: "array_includes xs v \<longleftrightarrow> v \<in> set xs"
  by (induction xs) auto

lemma every_set: "every P xs \<longleftrightarrow> (\<forall>x \<in> set xs. P x)"
  by (induction xs) auto

lemma some_set: "some P xs \<longleftrightarrow> (\<exists>x \<in> set xs. P x)"
  by (induction xs) auto

lemma findIndex_ge: "- 1 \<le> findIndex P xs"
  by (induction xs) (auto simp: Let_def)

lemma findIndex_found: "findIndex P xs \<noteq> - 1 \<longleftrightarrow> (\<exists>x \<in> set xs. P x)"
proof (induction xs)
  case Nil
  show ?case by simp
next
  case (Cons x xs)
  have "findIndex P xs + 1 \<noteq> - 1"
    using findIndex_ge [of P xs] by arith
  with Cons show ?case by (auto simp: Let_def)
qed

lemma filteredValues_set:
  "set (filteredValues s) = opt_value ` {x \<in> set (filteredOptions s). \<not> disabled x}"
  by (auto simp: filteredValues_def)

lemma some_value_image: "(\<exists>v \<in> set vs. f v = a) \<longleftrightarrow> a \<in> f ` set vs"
  by auto

lemma selectAllValues_checked:
  "selectAllValues True s =
     filter (\<lambda>x. opt_value x \<in> opt_value ` set (value_sel s) \<union>
                    opt_value ` {y \<in> set (filteredOptions s). \<not> disabled y})
       (if customFilterOptions s = None then options s else filteredOptions s)"
  by (simp add: selectAllValues_def Let_def array_includes_set filteredValues_set)

lemma selectAllValues_unchecked:
  "selectAllValues False s =
     filter (\<lambda>x. opt_value x \<notin> opt_value ` {y \<in> set (filteredOptions s). \<not> disabled y})
       (value_sel s)"
  by (simp add: selectAllValues_def array_includes_set filteredValues_set)

lemma isAllOptionSelected_iff:
  "isAllOptionSelected s \<longleftrightarrow>
     (\<forall>x \<in> set (filteredOptions s). \<not> disabled x \<longrightarrow>
        opt_value x \<in> opt_value ` set (value_sel s))"
  by (auto simp: isAllOptionSelected_def allSelectedMemo_def Let_def every_set findIndex_found
      some_value_image)

lemma hasSelectableOptions_iff:
  "hasSelectableOptions s \<longleftrightarrow> (\<exists>x \<in> set (filteredOptions s). \<not> disabled x)"
  by (auto simp: hasSelectableOptions_def allSelectedMemo_def Let_def filter_empty_conv)

lemma toLowerCase_char_plus_32:
  "isUpperCase_char c \<Longrightarrow> (of_char (toLowerCase_char c) :: nat) = of_char c + 32"
proof (cases c)
  case (Char b0 b1 b2 b3 b4 b5 b6 b7)
  assume "isUpperCase_char c"
  with Char show ?thesis
    by (cases b0; cases b1; cases b2; cases b3; cases b4; cases b5; cases b6; cases b7;
        simp add: toLowerCase_char_def isUpperCase_char_def)
qed

lemma toLowerCase_char_not_upper: "\<not> isUpperCase_char (toLowerCase_char c)"
proof (cases c)
  case (Char b0 b1 b2 b3 b4 b5 b6 b7)
  then show ?thesis
    by (cases b0; cases b1; cases b2; cases b3; cases b4; cases b5; cases b6; cases b7;
        simp add: toLowerCase_char_def isUpperCase_char_def)
qed

lemma toLowerCase_idem: "toLowerCase (toLowerCase str) = toLowerCase str"
proof -
  have "toLowerCase_char (toLowerCase_char c) = toLowerCase_char c" for c
    using toLowerCase_char_not_upper [of c]
    by (simp add: toLowerCase_char_def [of "toLowerCase_char c"])
  then show ?thesis
    by (simp add: toLowerCase_def)
qed

lemma renderOptions_creatable_iff:
  "renderOptions s = CreatableItem \<longleftrightarrow>
     isCreatable s \<and> searchText s \<noteq> [] \<and> filteredOptions s = []"
  by (auto simp: renderOptions_def showCreatable_def)

lemma contains_empty: "\<exists>ps ss. l = ps @ ss"
  by (rule exI [of _ "[]"]) simp

lemma updateFocus_bounds:
  "0 \<le> focusIndex (updateFocus offset s)
   \<and> focusIndex (updateFocus offset s) \<le> int (length (options s)) + max (skipIndex s - 1) 0"
  by (simp add: updateFocus_def Let_def)

lemma then_setFilteredOptions_pending [simp]:
  "pending (then_setFilteredOptions p s) = pending s"
  by (simp add: then_setFilteredOptions_def split: sum.splits)

lemma settle_fulfilled:
  assumes "i < length (pending s)" and "pending s ! i = Inr r"
  shows "filteredOptions (settle i s) = r"
  using assms by (simp add: settle_def then_setFilteredOptions_def)

lemma settle_rejected:
  assumes "i < length (pending s)" and "pending s ! i = Inl e"
  shows "filteredOptions (settle i s) = filteredOptions s
         \<and> unhandled (settle i s) = unhandled s @ [e]"
  using assms by (simp add: settle_def then_setFilteredOptions_def)

lemma settle_head_pending: "pending s = p # ps \<Longrightarrow> pending (settle 0 s) = ps"
  by (simp add: settle_def)

lemma settleAll_last_fulfilled:
  "pending s = ps @ [Inr r] \<Longrightarrow> filteredOptions (settleAll (Suc (length ps)) s) = r"
proof (induction ps arbitrary: s)
  case Nil
  then show ?case
    by (simp add: settle_def then_setFilteredOptions_def)
next
  case (Cons p ps)
  from Cons.prems have "pending (settle 0 s) = ps @ [Inr r]"
    by (simp add: settle_head_pending)
  from Cons.IH [OF this] show ?case
    by simp
qed

lemma debouncedSearch_builtin:
  assumes "customFilterOptions s = None" and "query \<noteq> searchTextForFilter s"
  shows "filteredOptions (debouncedSearch query s) = filterOptions (options s) query
         \<and> pending (debouncedSearch query s) = pending s"
  using assms
  by (simp add: debouncedSearch_def filterEffect_def getFilteredOptions_def
      then_setFilteredOptions_def)

lemma racePanel_pending: "pending racePanel = [Inr [optA], Inr [optB]]"
  by (simp add: racePanel_def debouncedSearch_def filterEffect_def getFilteredOptions_def
      exactLabelFilter_def example_defs)

subsection \<open>Bulk select-all, checked\<close>

text \<open>
  C1 (as the code has it). With \<open>checked = true\<close>, \<open>selectAllValues\<close> returns the
  options of its source list whose value is among the prior selection's values or the
  values of the visible non-disabled options, in the source's order; the source is the
  candidate list when no custom filter is supplied and the visible list otherwise. So the
  values of the result are that union, restricted to the values of the source. When no
  custom filter is supplied, a candidate that the filter hides is in the result exactly
  when its value was selected before.
\<close>

theorem C1_select_all_checked:
  "selectAllValues True s =
     filter (\<lambda>x. opt_value x \<in> opt_value ` set (value_sel s) \<union>
                    opt_value ` {y \<in> set (filteredOptions s). \<not> disabled y})
       (if customFilterOptions s = None then options s else filteredOptions s)
   \<and> opt_value ` set (selectAllValues True s) =
       (opt_value ` set (value_sel s) \<union>
        opt_value ` {y \<in> set (filteredOptions s). \<not> disabled y})
       \<inter> opt_value ` set (if customFilterOptions s = None then options s else filteredOptions s)
   \<and> (customFilterOptions s = None \<longrightarrow>
        (\<forall>x \<in> set (options s). opt_value x \<notin> opt_value ` set (filteredOptions s) \<longrightarrow>
           (x \<in> set (selectAllValues True s) \<longleftrightarrow> opt_value x \<in> opt_value ` set (value_sel s))))"
proof (intro conjI)
  show "selectAllValues True s =
     filter (\<lambda>x. opt_value x \<in> opt_value ` set (value_sel s) \<union>
                    opt_value ` {y \<in> set (filteredOptions s). \<not> disabled y})
       (if customFilterOptions s = None then options s else filteredOptions s)"
    by (rule selectAllValues_checked)
next
  show "opt_value ` set (selectAllValues True s) =
       (opt_value ` set (value_sel s) \<union>
        opt_value ` {y \<in> set (filteredOptions s). \<not> disabled y})
       \<inter> opt_value ` set (if customFilterOptions s = None then options s else filteredOptions s)"
    unfolding selectAllValues_checked by auto
next
  show "customFilterOptions s = None \<longrightarrow>
        (\<forall>x \<in> set (options s). opt_value x \<notin> opt_value ` set (filteredOptions s) \<longrightarrow>
           (x \<in> set (selectAllValues True s) \<longleftrightarrow> opt_value x \<in> opt_value ` set (value_sel s)))"
    unfolding selectAllValues_checked by auto
qed

text \<open>
  The theorem at a panel with the built-in filter: B is a candidate, hidden by the filter
  and selected before, and it is still selected afterwards.
\<close>

theorem C1_select_all_checked_witness:
  "customFilterOptions reorderedPanel = None
   \<and> optB \<in> set (options reorderedPanel)
   \<and> opt_value optB \<notin> opt_value ` set (filteredOptions reorderedPanel)
   \<and> opt_value optB \<in> opt_value ` set (value_sel reorderedPanel)
   \<and> optB \<in> set (selectAllValues True reorderedPanel)"
proof -
  have h1: "customFilterOptions reorderedPanel = None"
    by (simp add: reorderedPanel_def example_defs)
  have h2: "optB \<in> set (options reorderedPanel)"
    by (simp add: reorderedPanel_def example_defs)
  have h3: "opt_value optB \<notin> opt_value ` set (filteredOptions reorderedPanel)"
    by (simp add: reorderedPanel_def example_defs)
  have h4: "opt_value optB \<in> opt_value ` set (value_sel reorderedPanel)"
    by (simp add: reorderedPanel_def example_defs)
  from C1_select_all_checked [of reorderedPanel] h1 h2 h3 h4
  have "optB \<in> set (selectAllValues True reorderedPanel)"
    by blast
  with h1 h2 h3 h4 show ?thesis
    by blast
qed

text \<open>
  C1 as stated fails when a custom filter is supplied: the result is then taken from the
  visible list. Here A is a candidate, hidden by the filter and selected; select-all
  returns only C, so A loses its selection, and the values of the result are not the
  union of the selected and the visible values.
\<close>

theorem C1_hidden_selection_dropped:
  "optA \<in> set (options hiddenSelectedPanel)
   \<and> opt_value optA \<notin> opt_value ` set (filteredOptions hiddenSelectedPanel)
   \<and> optA \<in> set (value_sel hiddenSelectedPanel)
   \<and> selectAllValues True hiddenSelectedPanel = [optC]
   \<and> opt_value ` set (selectAllValues True hiddenSelectedPanel) \<noteq>
       opt_value ` set (value_sel hiddenSelectedPanel) \<union>
       opt_value ` {y \<in> set (filteredOptions hiddenSelectedPanel). \<not> disabled y}"
  by (simp add: hiddenSelectedPanel_def example_defs selectAllValues_def filteredValues_def)

subsection \<open>Bulk select-all, unchecked\<close>

text \<open>
  C2 (as the code has it). With \<open>checked = false\<close>, \<open>selectAllValues\<close> returns the
  prior selection, in its order, without the options whose value is the value of a
  visible non-disabled option. In particular every selected option whose value is not the
  value of any visible option is kept, whatever its own disabled flag.
\<close>

theorem C2_select_all_unchecked:
  "selectAllValues False s =
     filter (\<lambda>x. opt_value x \<notin> opt_value ` {y \<in> set (filteredOptions s). \<not> disabled y})
       (value_sel s)
   \<and> (\<forall>x \<in> set (value_sel s). opt_value x \<notin> opt_value ` set (filteredOptions s) \<longrightarrow>
          x \<in> set (selectAllValues False s))"
proof (intro conjI)
  show "selectAllValues False s =
     filter (\<lambda>x. opt_value x \<notin> opt_value ` {y \<in> set (filteredOptions s). \<not> disabled y})
       (value_sel s)"
    by (rule selectAllValues_unchecked)
next
  show "\<forall>x \<in> set (value_sel s). opt_value x \<notin> opt_value ` set (filteredOptions s) \<longrightarrow>
          x \<in> set (selectAllValues False s)"
    unfolding selectAllValues_unchecked by auto
qed

text \<open>
  The theorem at a panel that shows only C, with B (disabled, hidden) and C selected:
  B is kept.
\<close>

theorem C2_select_all_unchecked_witness:
  "optB \<in> set (value_sel deselectPanel)
   \<and> disabled optB
   \<and> opt_value optB \<notin> opt_value ` set (filteredOptions deselectPanel)
   \<and> optB \<in> set (selectAllValues False deselectPanel)"
proof -
  have h1: "optB \<in> set (value_sel deselectPanel)"
    by (simp add: deselectPanel_def example_defs)
  have h2: "disabled optB"
    by (simp add: example_defs)
  have h3: "opt_value optB \<notin> opt_value ` set (filteredOptions deselectPanel)"
    by (simp add: deselectPanel_def example_defs)
  from C2_select_all_unchecked [of deselectPanel] h1 h3
  have "optB \<in> set (selectAllValues False deselectPanel)"
    by blast
  with h1 h2 h3 show ?thesis
    by blast
qed

text \<open>
  C2 as stated fails for a selected option that is visible and disabled: its value
  appears in the visible set, and deselect-all keeps it.
\<close>

theorem C2_visible_disabled_kept:
  "optB \<in> set (value_sel disabledSelectedPanel)
   \<and> opt_value optB \<in> opt_value ` set (filteredOptions disabledSelectedPanel)
   \<and> optB \<in> set (selectAllValues False disabledSelectedPanel)"
  by (simp add: disabledSelectedPanel_def example_defs selectAllValues_def filteredValues_def)

subsection \<open>The "all selected" predicate\<close>

text \<open>
  C4. \<open>isAllOptionSelected\<close> holds iff every non-disabled option of the visible list
  has its value in the selection; it holds when the visible list has no non-disabled
  option; and \<open>hasSelectableOptions\<close>, the second component of the memo, says whether
  there is a non-disabled visible option.
\<close>

theorem C4_all_selected:
  "(isAllOptionSelected s \<longleftrightarrow>
      (\<forall>x \<in> set (filteredOptions s). \<not> disabled x \<longrightarrow>
         opt_value x \<in> opt_value ` set (value_sel s)))
   \<and> ((\<forall>x \<in> set (filteredOptions s). disabled x) \<longrightarrow> isAllOptionSelected s)
   \<and> (hasSelectableOptions s \<longleftrightarrow> (\<exists>x \<in> set (filteredOptions s). \<not> disabled x))"
  using isAllOptionSelected_iff [of s] hasSelectableOptions_iff [of s] by blast

text \<open>
  The theorem at a panel whose only visible option is disabled, with nothing selected:
  all options count as selected, and there is no selectable option.
\<close>

theorem C4_all_selected_witness:
  "filteredOptions allDisabledPanel = [optB]
   \<and> disabled optB
   \<and> value_sel allDisabledPanel = []
   \<and> isAllOptionSelected allDisabledPanel
   \<and> \<not> hasSelectableOptions allDisabledPanel"
proof -
  have f: "filteredOptions allDisabledPanel = [optB]"
    by (simp add: allDisabledPanel_def example_defs)
  have d: "disabled optB"
    by (simp add: example_defs)
  have v: "value_sel allDisabledPanel = []"
    by (simp add: allDisabledPanel_def example_defs)
  from f d have all: "\<forall>x \<in> set (filteredOptions allDisabledPanel). disabled x"
    by simp
  from C4_all_selected [of allDisabledPanel] all
  have "isAllOptionSelected allDisabledPanel \<and> \<not> hasSelectableOptions allDisabledPanel"
    by blast
  with f d v show ?thesis
    by blast
qed

subsection \<open>Select-all follows the candidate order\<close>

text \<open>
  C10. When no custom filter is supplied, the selection that select-all returns is a
  subsequence of the candidate list. It depends on the prior selection only through the
  set of its values, so the order in which options were selected is lost, and a selected
  option whose value is not the value of any candidate has no counterpart in the result.
\<close>

theorem C10_candidate_order:
  assumes "customFilterOptions s = None"
  shows "subseq (selectAllValues True s) (options s)
   \<and> (\<forall>x \<in> set (value_sel s). opt_value x \<notin> opt_value ` set (options s) \<longrightarrow>
          opt_value x \<notin> opt_value ` set (selectAllValues True s))
   \<and> (\<forall>sel. opt_value ` set sel = opt_value ` set (value_sel s) \<longrightarrow>
          selectAllValues True (s\<lparr>value_sel := sel\<rparr>) = selectAllValues True s)"
proof (intro conjI)
  show "subseq (selectAllValues True s) (options s)"
    using assms by (simp add: selectAllValues_checked)
next
  show "\<forall>x \<in> set (value_sel s). opt_value x \<notin> opt_value ` set (options s) \<longrightarrow>
          opt_value x \<notin> opt_value ` set (selectAllValues True s)"
    using assms by (auto simp: selectAllValues_checked)
next
  show "\<forall>sel. opt_value ` set sel = opt_value ` set (value_sel s) \<longrightarrow>
          selectAllValues True (s\<lparr>value_sel := sel\<rparr>) = selectAllValues True s"
    using assms by (simp add: selectAllValues_checked)
qed

text \<open>
  The theorem at a panel whose selection is Z, B, A: the result is A, B, C in candidate
  order, Z is gone, and another order of the same selection gives the same result.
\<close>

theorem C10_candidate_order_witness:
  "customFilterOptions reorderedPanel = None
   \<and> value_sel reorderedPanel = [optZ, optB, optA]
   \<and> options reorderedPanel = [optA, optB, optC]
   \<and> selectAllValues True reorderedPanel = [optA, optB, optC]
   \<and> subseq (selectAllValues True reorderedPanel) (options reorderedPanel)
   \<and> opt_value optZ \<notin> opt_value ` set (selectAllValues True reorderedPanel)
   \<and> selectAllValues True (reorderedPanel\<lparr>value_sel := [optA, optZ, optB]\<rparr>) =
       selectAllValues True reorderedPanel"
proof -
  have n: "customFilterOptions reorderedPanel = None"
    by (simp add: reorderedPanel_def example_defs)
  have v: "value_sel reorderedPanel = [optZ, optB, optA]"
    by (simp add: reorderedPanel_def initialPanel_def)
  have c: "options reorderedPanel = [optA, optB, optC]"
    by (simp add: reorderedPanel_def initialPanel_def)
  have r: "selectAllValues True reorderedPanel = [optA, optB, optC]"
    by (simp add: selectAllValues_def filteredValues_def reorderedPanel_def example_defs)
  have z: "optZ \<in> set (value_sel reorderedPanel)
           \<and> opt_value optZ \<notin> opt_value ` set (options reorderedPanel)"
    by (simp add: reorderedPanel_def example_defs)
  have p: "opt_value ` set [optA, optZ, optB] = opt_value ` set (value_sel reorderedPanel)"
    by (auto simp: reorderedPanel_def example_defs)
  note t = C10_candidate_order [OF n]
  from t have s: "subseq (selectAllValues True reorderedPanel) (options reorderedPanel)"
    by blast
  from t z have d: "opt_value optZ \<notin> opt_value ` set (selectAllValues True reorderedPanel)"
    by blast
  from t p have e: "selectAllValues True (reorderedPanel\<lparr>value_sel := [optA, optZ, optB]\<rparr>) =
       selectAllValues True reorderedPanel"
    by blast
  from n v c r s d e show ?thesis
    by blast
qed

subsection \<open>The built-in filter\<close>

text \<open>
  C3. When no custom filter is supplied, the filtered options are exactly the candidates,
  in the candidates' order, whose lower-cased label contains the lower-cased query as a
  contiguous substring; for the empty query they are the candidate list unchanged.
  Lower-casing maps every upper-case letter to its partner and leaves every other
  character alone (lemmas \<open>toLowerCase_char_plus_32\<close>, \<open>toLowerCase_idem\<close>).
\<close>

theorem C3_default_filter:
  assumes "customFilterOptions s = None"
  shows "getFilteredOptions s =
           Inr (filter (\<lambda>x. \<exists>ps ss. toLowerCase (label x) =
                                 ps @ toLowerCase (searchTextForFilter s) @ ss)
                  (options s))
         \<and> (searchTextForFilter s = [] \<longrightarrow> getFilteredOptions s = Inr (options s))"
proof (cases "searchTextForFilter s = []")
  case True
  with assms show ?thesis
    by (simp add: getFilteredOptions_def filterOptions_def toLowerCase_def contains_empty)
next
  case False
  with assms show ?thesis
    by (simp add: getFilteredOptions_def filterOptions_def sublist_def)
qed

text \<open>
  The theorem at three fruits: the query "APP" keeps Apple and Pineapple, and the empty
  query keeps all three. The match does not depend on case for accented letters either:
  the query of a small e with acute accent (code unit 233) and a capital C keeps the
  option whose label starts with the capital E with acute accent and a small c.
\<close>

theorem C3_default_filter_witness:
  "customFilterOptions fruitPanel = None
   \<and> searchTextForFilter fruitPanel = ''APP''
   \<and> getFilteredOptions fruitPanel = Inr [optApple, optPineapple]
   \<and> getFilteredOptions fruitPanel =
       Inr (filter (\<lambda>x. \<exists>ps ss. toLowerCase (label x) = ps @ toLowerCase ''APP'' @ ss)
              (options fruitPanel))
   \<and> searchTextForFilter (fruitPanel\<lparr>searchTextForFilter := []\<rparr>) = []
   \<and> getFilteredOptions (fruitPanel\<lparr>searchTextForFilter := []\<rparr>) =
       Inr [optApple, optBanana, optPineapple]
   \<and> toLowerCase [CHR 0xC9, CHR ''C''] = [CHR 0xE9, CHR ''c'']
   \<and> getFilteredOptions
         (fruitPanel\<lparr>options := [optApple, optEclair],
            searchTextForFilter := [CHR 0xE9, CHR ''C'']\<rparr>) = Inr [optEclair]"
proof -
  have l: "toLowerCase [CHR 0xC9, CHR ''C''] = [CHR 0xE9, CHR ''c'']"
    by (simp add: toLowerCase_def toLowerCase_char_def isUpperCase_char_def)
  have a: "getFilteredOptions
         (fruitPanel\<lparr>options := [optApple, optEclair],
            searchTextForFilter := [CHR 0xE9, CHR ''C'']\<rparr>) = Inr [optEclair]"
    by (simp add: getFilteredOptions_def filterOptions_def toLowerCase_def
        toLowerCase_char_def isUpperCase_char_def sublist_code fruitPanel_def
        initialPanel_def mkOption_def optApple_def optEclair_def)
  have n: "customFilterOptions fruitPanel = None"
    by (simp add: fruitPanel_def initialPanel_def)
  have q: "searchTextForFilter fruitPanel = ''APP''"
    by (simp add: fruitPanel_def initialPanel_def)
  have r: "getFilteredOptions fruitPanel = Inr [optApple, optPineapple]"
    by (simp add: getFilteredOptions_def filterOptions_def toLowerCase_def
        toLowerCase_char_def isUpperCase_char_def sublist_code fruitPanel_def
        initialPanel_def mkOption_def
        optApple_def optBanana_def optPineapple_def)
  have n': "customFilterOptions (fruitPanel\<lparr>searchTextForFilter := []\<rparr>) = None"
    by (simp add: fruitPanel_def initialPanel_def)
  have o: "options (fruitPanel\<lparr>searchTextForFilter := []\<rparr>) =
             [optApple, optBanana, optPineapple]"
    by (simp add: fruitPanel_def initialPanel_def)
  have q': "searchTextForFilter (fruitPanel\<lparr>searchTextForFilter := []\<rparr>) = []"
    by simp
  have c: "getFilteredOptions fruitPanel =
       Inr (filter (\<lambda>x. \<exists>ps ss. toLowerCase (label x) = ps @ toLowerCase ''APP'' @ ss)
              (options fruitPanel))"
    using conjunct1 [OF C3_default_filter [OF n]] unfolding q .
  from conjunct2 [OF C3_default_filter [OF n']] q'
  have "getFilteredOptions (fruitPanel\<lparr>searchTextForFilter := []\<rparr>) =
       Inr (options (fruitPanel\<lparr>searchTextForFilter := []\<rparr>))"
    by blast
  then have e: "getFilteredOptions (fruitPanel\<lparr>searchTextForFilter := []\<rparr>) =
       Inr [optApple, optBanana, optPineapple]"
    by (simp only: o)
  from n q r c q' e l a show ?thesis
    by blast
qed

subsection \<open>Filter requests and their results\<close>

text \<open>
  C5 (as the code has it). The result of a filter request is stored in the visible list
  whenever its promise fulfils, whatever else is pending and whether or not a newer
  request was issued. If the pending requests settle in the order they were issued and
  the last one fulfils, the visible list ends as the result of the most recent request.
  With the built-in filter the result of a request is stored at once and nothing is left
  pending.
\<close>

theorem C5_every_result_applied:
  "(i < length (pending s) \<and> pending s ! i = Inr r \<longrightarrow> filteredOptions (settle i s) = r)
   \<and> (pending s = ps @ [Inr r] \<longrightarrow>
        filteredOptions (settleAll (length (pending s)) s) = r)
   \<and> (customFilterOptions s = None \<and> query \<noteq> searchTextForFilter s \<longrightarrow>
        filteredOptions (debouncedSearch query s) = filterOptions (options s) query
        \<and> pending (debouncedSearch query s) = pending s)"
  using settle_fulfilled [of i s r] settleAll_last_fulfilled [of s ps r]
    debouncedSearch_builtin [of s query]
  by auto

text \<open>
  The theorem at the panel with the requests for "A" and "B" pending: settling the first
  shows A; settling both in order ends with B. And at the panel with the built-in
  filter: a request for "an" shows Banana at once.
\<close>

theorem C5_every_result_applied_witness:
  "pending racePanel = [Inr [optA]] @ [Inr [optB]]
   \<and> searchTextForFilter racePanel = ''B''
   \<and> filteredOptions (settleAll (length (pending racePanel)) racePanel) = [optB]
   \<and> filteredOptions (settle 0 racePanel) = [optA]
   \<and> customFilterOptions fruitPanel = None
   \<and> ''an'' \<noteq> searchTextForFilter fruitPanel
   \<and> filteredOptions (debouncedSearch ''an'' fruitPanel) = [optBanana]
   \<and> pending (debouncedSearch ''an'' fruitPanel) = []"
proof -
  have p: "pending racePanel = [Inr [optA]] @ [Inr [optB]]"
    by (simp add: racePanel_pending)
  have q: "searchTextForFilter racePanel = ''B''"
    by (simp add: racePanel_def debouncedSearch_def filterEffect_def example_defs)
  have i: "0 < length (pending racePanel) \<and> pending racePanel ! 0 = Inr [optA]"
    by (simp add: racePanel_pending)
  from C5_every_result_applied [where i = 0 and s = racePanel and r = "[optA]"] i
  have a: "filteredOptions (settle 0 racePanel) = [optA]"
    by blast
  from C5_every_result_applied [where s = racePanel and r = "[optB]" and ps = "[Inr [optA]]"] p
  have b: "filteredOptions (settleAll (length (pending racePanel)) racePanel) = [optB]"
    by blast
  have n: "customFilterOptions fruitPanel = None"
    by (simp add: fruitPanel_def initialPanel_def)
  have d: "''an'' \<noteq> searchTextForFilter fruitPanel"
    by (simp add: fruitPanel_def initialPanel_def)
  have f: "filterOptions (options fruitPanel) ''an'' = [optBanana]"
    by (simp add: filterOptions_def toLowerCase_def toLowerCase_char_def
        isUpperCase_char_def sublist_code
        fruitPanel_def initialPanel_def mkOption_def optApple_def optBanana_def
        optPineapple_def)
  have e: "pending fruitPanel = []"
    by (simp add: fruitPanel_def initialPanel_def)
  from C5_every_result_applied [where s = fruitPanel and query = "''an''"] n d
  have "filteredOptions (debouncedSearch ''an'' fruitPanel) =
          filterOptions (options fruitPanel) ''an''
        \<and> pending (debouncedSearch ''an'' fruitPanel) = pending fruitPanel"
    by blast
  then have c: "filteredOptions (debouncedSearch ''an'' fruitPanel) = [optBanana]
        \<and> pending (debouncedSearch ''an'' fruitPanel) = []"
    by (simp only: f e)
  from p q a b n d c show ?thesis
    by blast
qed

text \<open>
  C5 as stated fails: the request for "A" is superseded by the request for "B"; when the
  newer request settles first, the visible list is B, and when the older one settles
  afterwards the visible list becomes A, although the current query is "B" and its
  result is B.
\<close>

theorem C5_stale_result_applied:
  "searchTextForFilter racePanel = ''B''
   \<and> pending racePanel = [Inr [optA], Inr [optB]]
   \<and> filteredOptions (settle 1 racePanel) = [optB]
   \<and> pending (settle 1 racePanel) = [Inr [optA]]
   \<and> filteredOptions (settle 0 (settle 1 racePanel)) = [optA]
   \<and> searchTextForFilter (settle 0 (settle 1 racePanel)) = ''B''
   \<and> getFilteredOptions (settle 0 (settle 1 racePanel)) = Inr [optB]"
  by (simp add: racePanel_def debouncedSearch_def filterEffect_def getFilteredOptions_def
      settle_def then_setFilteredOptions_def exactLabelFilter_def example_defs)

subsection \<open>A failing custom filter\<close>

text \<open>
  C6 (as the code has it). When the custom filter throws or its promise rejects, the
  visible list is unchanged, both while the promise is pending and after it settled; the
  reason is taken by no handler of the panel and is reported as an unhandled rejection.
\<close>

theorem C6_failed_filter:
  assumes "customFilterOptions s = Some f"
    and "f (options s) query = Inl e"
    and "query \<noteq> searchTextForFilter s"
  shows "filteredOptions (debouncedSearch query s) = filteredOptions s
     \<and> pending (debouncedSearch query s) = pending s @ [Inl e]
     \<and> filteredOptions (settle (length (pending s)) (debouncedSearch query s)) =
         filteredOptions s
     \<and> unhandled (settle (length (pending s)) (debouncedSearch query s)) =
         unhandled s @ [e]"
  using assms
  by (simp add: debouncedSearch_def filterEffect_def getFilteredOptions_def settle_def
      then_setFilteredOptions_def)

text \<open>The theorem at a panel whose custom filter always fails.\<close>

theorem C6_failed_filter_witness:
  "customFilterOptions failPanel = Some failingFilter
   \<and> failingFilter (options failPanel) ''x'' = Inl (Thrown ''lookup failed'')
   \<and> ''x'' \<noteq> searchTextForFilter failPanel
   \<and> filteredOptions failPanel = [optA]
   \<and> filteredOptions (settle 0 (debouncedSearch ''x'' failPanel)) = [optA]
   \<and> unhandled (settle 0 (debouncedSearch ''x'' failPanel)) = [Thrown ''lookup failed'']"
proof -
  have c: "customFilterOptions failPanel = Some failingFilter"
    by (simp add: failPanel_def initialPanel_def)
  have f: "failingFilter (options failPanel) ''x'' = Inl (Thrown ''lookup failed'')"
    by (simp add: failingFilter_def)
  have q: "''x'' \<noteq> searchTextForFilter failPanel"
    by (simp add: failPanel_def initialPanel_def)
  have v: "filteredOptions failPanel = [optA]"
    by (simp add: failPanel_def initialPanel_def)
  have p: "pending failPanel = []" and u: "unhandled failPanel = []"
    by (simp_all add: failPanel_def initialPanel_def)
  from C6_failed_filter [OF c f q]
  have "filteredOptions (settle 0 (debouncedSearch ''x'' failPanel)) = [optA]
        \<and> unhandled (settle 0 (debouncedSearch ''x'' failPanel)) = [Thrown ''lookup failed'']"
    by (simp add: p u v)
  with c f q v show ?thesis
    by blast
qed

text \<open>
  C6 as stated fails in its second half: before the request nothing is unhandled, the
  request's promise rejects, and afterwards its reason is an unhandled rejection.
\<close>

theorem C6_rejection_unhandled:
  "unhandled failPanel = []
   \<and> getFilteredOptions (failPanel\<lparr>searchTextForFilter := ''x''\<rparr>) = Inl (Thrown ''lookup failed'')
   \<and> unhandled (settle 0 (debouncedSearch ''x'' failPanel)) = [Thrown ''lookup failed'']"
  by (simp add: failPanel_def initialPanel_def failingFilter_def debouncedSearch_def
      filterEffect_def getFilteredOptions_def settle_def then_setFilteredOptions_def)

subsection \<open>The create affordance\<close>

text \<open>
  C7. The claim is that, in a creatable panel with a non-empty query, the create item is
  shown iff the query matches no existing option's label or value. The code tests the
  values, \<^verbatim>\<open>!filteredOptions.some((e) => e?.value === searchText)\<close>, but on the
  visible list, and it renders the create item only where the visible list is empty, so
  the test never fails there (lemma \<open>renderOptions_creatable_iff\<close>). An input where
  the create item is shown for a query that is the value of an existing option: the only
  option has the label Xyz and the value a, the query is "a", and the filter, which
  matches on labels, shows nothing. The test on values holds of the candidate list and
  not of the visible list, and the create item is rendered.
\<close>

theorem C7_value_match_still_creatable:
  "isCreatable valueMatchPanel
   \<and> searchText valueMatchPanel = ''a''
   \<and> searchTextForFilter valueMatchPanel = searchText valueMatchPanel
   \<and> options valueMatchPanel = [optXyz]
   \<and> opt_value optXyz = searchText valueMatchPanel
   \<and> getFilteredOptions valueMatchPanel = Inr (filteredOptions valueMatchPanel)
   \<and> filteredOptions valueMatchPanel = []
   \<and> some (\<lambda>e. opt_value e = searchText valueMatchPanel) (options valueMatchPanel)
   \<and> \<not> some (\<lambda>e. opt_value e = searchText valueMatchPanel)
           (filteredOptions valueMatchPanel)
   \<and> showCreatable valueMatchPanel
   \<and> renderOptions valueMatchPanel = CreatableItem"
  by (simp add: valueMatchPanel_def initialPanel_def optXyz_def mkOption_def
      renderOptions_def showCreatable_def getFilteredOptions_def exactLabelFilter_def)

subsection \<open>Creating an option\<close>

text \<open>
  C8. With no custom creator and a non-empty query, the create-option flow builds the
  option whose label and value are the query and whose new-option flag is set, puts it in
  front of the candidate list, clears the query (and the query used for filtering), and
  passes the selection with the new option appended to \<^verbatim>\<open>onChange\<close>.
\<close>

theorem C8_create_option:
  assumes "onCreateOption s = None" and "searchText s \<noteq> []"
  shows "handleOnCreateOption s =
     (let newOption = \<lparr>label = searchText s, opt_value = searchText s, disabled = False,
                        isNew = True\<rparr>
      in Inr (s\<lparr>options := newOption # options s, searchTextForFilter := [],
                 searchText := []\<rparr>,
              value_sel s @ [newOption]))"
  using assms by (simp add: handleOnCreateOption_def handleClear_def Let_def)

text \<open>The theorem at the creatable scenario: the candidates become zzz, A.\<close>

theorem C8_create_option_witness:
  "onCreateOption createPanel = None
   \<and> searchText createPanel = ''zzz''
   \<and> options createPanel = [optA]
   \<and> value_sel createPanel = []
   \<and> handleOnCreateOption createPanel =
       Inr (createPanel\<lparr>options := [optZzz, optA], searchTextForFilter := [],
              searchText := []\<rparr>, [optZzz])
   \<and> isNew optZzz"
proof -
  have n: "onCreateOption createPanel = None"
    by (simp add: createPanel_def initialPanel_def)
  have q: "searchText createPanel = ''zzz''"
    by (simp add: createPanel_def initialPanel_def)
  have o: "options createPanel = [optA]"
    by (simp add: createPanel_def initialPanel_def)
  have v: "value_sel createPanel = []"
    by (simp add: createPanel_def initialPanel_def)
  have ne: "searchText createPanel \<noteq> []"
    by (simp add: q)
  from C8_create_option [OF n ne]
  have "handleOnCreateOption createPanel =
       Inr (createPanel\<lparr>options := [optZzz, optA], searchTextForFilter := [],
              searchText := []\<rparr>, [optZzz])"
    by (simp add: q o v optZzz_def Let_def)
  with n q o v show ?thesis
    by (simp add: optZzz_def)
qed

subsection \<open>The focus index\<close>

text \<open>
  C9. The claim is that an arrow key leaves the focus index within the rendered rows,
  between 0 and \<open>visibleRowCount - 1\<close>. The code clamps to the number of candidates
  plus \<open>max (skipIndex - 1) 0\<close> instead (lemma \<open>updateFocus_bounds\<close>). Two inputs
  where the index leaves the rows: a panel without search box and select-all item, with
  one option, where arrow-down moves the index from 0 to 1 although there is one row; and
  a panel that shows one of three candidates below the search box and the select-all
  item, where arrow-down moves the index from 2 to 3 although there are three rows.
\<close>

theorem C9_focus_leaves_rows:
  "visibleRowCount bareOneOptionPanel = 1
   \<and> focusIndex bareOneOptionPanel = 0
   \<and> focusIndex (updateFocus 1 bareOneOptionPanel) = 1
   \<and> visibleRowCount (updateFocus 1 bareOneOptionPanel) - 1
         < focusIndex (updateFocus 1 bareOneOptionPanel)
   \<and> visibleRowCount filteredFocusPanel = 3
   \<and> focusIndex filteredFocusPanel = 2
   \<and> focusIndex (updateFocus 1 filteredFocusPanel) = 3
   \<and> visibleRowCount (updateFocus 1 filteredFocusPanel) - 1
         < focusIndex (updateFocus 1 filteredFocusPanel)"
  by (simp add: bareOneOptionPanel_def filteredFocusPanel_def example_defs updateFocus_def
      skipIndex_def visibleRowCount_def hasSelectableOptions_def allSelectedMemo_def Let_def)

end
